theory Spec2Isabelle
  imports Complex_Main "HOL-Library.Log_Nat"
begin

section \<open>The history persister (\<^verbatim>\<open>history/subscriber/persister.py\<close>)\<close>

text \<open>
  The class \<^verbatim>\<open>Persister\<close> receives device events as JSON text, turns them into
  documents and writes them to a MongoDB database. The model below follows the Python 3
  semantics of the source (the module imports \<^verbatim>\<open>dojot.module\<close>, a Python 3
  package): comparing a \<^verbatim>\<open>str\<close> with an \<^verbatim>\<open>int\<close> raises
  \<^verbatim>\<open>TypeError\<close>, and \<^verbatim>\<open>/\<close> is true division.

  Everything outside the module is an explicit parameter, collected in the record
  \<open>env\<close>: the \<^verbatim>\<open>json\<close> codec, the clock, \<^verbatim>\<open>dateutil.parser.parse\<close>, the
  configuration and the behaviour of the document store. Every effect of a handler is
  an entry of a trace (log entries and the calls issued to the store), and every
  exception is a value.
\<close>

subsection \<open>Values\<close>

text \<open>
  A Python \<^verbatim>\<open>float\<close> is a double: a finite one is the rational it denotes, and there
  are the three special values.
\<close>

datatype pyfloat = Finite rat | PosInf | NegInf | NaN

text \<open>
  The result of an arithmetic operation on doubles is the double nearest to the exact
  result, ties to even: 53 significant bits. \<open>floor_log2 x\<close> is the exponent \<open>e\<close> with
  \<open>2\<^sup>e \<le> x < 2\<^sup>e\<^sup>+\<^sup>1\<close> of a positive \<open>x\<close>. Overflow and subnormal numbers are outside
  the model; the timestamps that \<^verbatim>\<open>datetime\<close> accepts are far from both.
\<close>

definition power2 :: "int \<Rightarrow> rat" where
  "power2 e = (if 0 \<le> e then 2 ^ nat e else 1 / 2 ^ nat (- e))"

definition floor_log2 :: "rat \<Rightarrow> int" where
  "floor_log2 x =
     (let e = bitlen (fst (quotient_of x)) - bitlen (snd (quotient_of x))
      in if power2 e \<le> x then e else e - 1)"

definition round_half_even :: "rat \<Rightarrow> int" where
  "round_half_even x =
     (let f = \<lfloor>x\<rfloor>; d = x - of_int f in
      if d < 1 / 2 then f else if 1 / 2 < d then f + 1 else if even f then f else f + 1)"

definition to_double :: "rat \<Rightarrow> rat" where
  "to_double x =
     (if x = 0 then 0
      else
        (let u = power2 (floor_log2 \<bar>x\<bar> - 52)
         in of_int (round_half_even (x / u)) * u))"

text \<open>
  What \<^verbatim>\<open>json.loads\<close> returns. A \<^verbatim>\<open>dict\<close> is an association list in insertion
  order in which the first binding of a key is the live one (\<open>map_of\<close>); \<open>JNull\<close> is
  Python's \<^verbatim>\<open>None\<close>.
\<close>

datatype json =
    JNull
  | JBool bool
  | JInt int
  | JFloat pyfloat
  | JStr string
  | JArr "json list"
  | JObj "(string \<times> json) list"

text \<open>A \<^verbatim>\<open>datetime\<close>: microseconds since the epoch, UTC.\<close>

datatype datetime = Datetime int

subsection \<open>Exceptions\<close>

datatype exc_class =
    ValueError
  | JSONDecodeError
  | TypeError
  | OverflowError
  | OSError
  | AttributeError
  | KeyError
  | PyMongoError

text \<open>
  \<open>Raised c\<close> is an exception of class \<open>c\<close> raised by the interpreter or a library, its
  message not modelled. \<open>RaisedAbout c s\<close> is an exception of class \<open>c\<close> whose message
  quotes the string \<open>s\<close>, as the errors of the date parser do
  (\<^verbatim>\<open>Unknown string format: ...\<close>). \<open>CouldNotParse ts e\<close> is the
  \<^verbatim>\<open>TypeError('Timestamp could not be parsed: {}\n{}'.format(timestamp, error))\<close>
  of line 94, which carries the offending input and the error it wraps.
\<close>

datatype exc = Raised exc_class | RaisedAbout exc_class string | CouldNotParse json exc

fun exc_class_of :: "exc \<Rightarrow> exc_class" where
  "exc_class_of (Raised c) = c"
| "exc_class_of (RaisedAbout c s) = c"
| "exc_class_of (CouldNotParse v e) = TypeError"

text \<open>\<^verbatim>\<open>except ValueError\<close>: \<^verbatim>\<open>json.JSONDecodeError\<close> is a subclass of \<^verbatim>\<open>ValueError\<close>.\<close>

definition is_ValueError :: "exc_class \<Rightarrow> bool" where
  "is_ValueError c = (c = ValueError \<or> c = JSONDecodeError)"

subsection \<open>Documents, the store and the trace\<close>

text \<open>
  The two dictionaries built by \<^verbatim>\<open>handle_event_data\<close>:
  \<^verbatim>\<open>{'attr', 'value', 'device_id', 'ts'}\<close> and \<^verbatim>\<open>{'status', 'device_id', 'ts'}\<close>.
\<close>

datatype doc =
    AttrDoc (attr: string) (val: json) (device_id: json) (ts: datetime)
  | StatusDoc (status: json) (device_id: json) (ts: datetime)

text \<open>
  The two indexes of \<^verbatim>\<open>create_indexes\<close>: \<^verbatim>\<open>[('ts', pymongo.DESCENDING)]\<close> and
  \<^verbatim>\<open>'ts'\<close> with \<^verbatim>\<open>expireAfterSeconds\<close>.
\<close>

datatype index_spec = TsDescending | TsExpireAfter int

datatype level = Debug | Info | Warn | Error

text \<open>One constructor for each logging statement of the handlers, with what it formats.\<close>

datatype logmsg =
    NewMessageIs json
  | FailedToParseTimestamp json exc_class
  | ThisIsTheData json
  | NotValidJson
  | GotDataEvent string
  | NoMetadata
  | NoDevice
  | FailedToPersist exc
  | GotEmptyEvent json
  | GotDeviceEvent json

datatype effect =
    Log level logmsg
  | CreateIndex string index_spec
  | InsertMany string "doc list"

text \<open>A handler returns \<^verbatim>\<open>None\<close> or raises: its outcome is the trace and the exception, if any.\<close>

type_synonym outcome = "effect list \<times> exc option"

definition prepend :: "effect list \<Rightarrow> outcome \<Rightarrow> outcome" where
  "prepend tr r = (tr @ fst r, snd r)"

subsection \<open>The environment\<close>

record env =
  loads :: "string \<Rightarrow> json option"
    \<comment> \<open>\<^verbatim>\<open>json.loads\<close>; \<open>None\<close> when it raises \<^verbatim>\<open>JSONDecodeError\<close>\<close>
  dumps :: "json \<Rightarrow> string"
    \<comment> \<open>\<^verbatim>\<open>json.dumps\<close>\<close>
  clock :: rat
    \<comment> \<open>the double \<^verbatim>\<open>time.time()\<close> returns when the handler reads the clock: seconds since the epoch\<close>
  float_of_str :: "string \<Rightarrow> pyfloat option"
    \<comment> \<open>\<^verbatim>\<open>float(s)\<close> of a string; \<open>None\<close> when it raises \<^verbatim>\<open>ValueError\<close>\<close>
  dateutil_parse :: "string \<Rightarrow> exc + datetime"
    \<comment> \<open>\<^verbatim>\<open>dateutil.parser.parse\<close> of a string\<close>
  out_of_range :: "rat \<Rightarrow> exc_class"
    \<comment> \<open>the class \<^verbatim>\<open>utcfromtimestamp\<close> raises outside the years 1 to 9999: \<^verbatim>\<open>ValueError\<close>
        (year out of range), or \<^verbatim>\<open>OverflowError\<close>, \<^verbatim>\<open>OSError\<close> beyond the platform's \<^verbatim>\<open>time_t\<close>\<close>
  py_repr :: "json \<Rightarrow> string"
    \<comment> \<open>\<^verbatim>\<open>str\<close> of a float, list or dict\<close>
  db_expiration :: int
    \<comment> \<open>\<^verbatim>\<open>conf.db_expiration\<close>\<close>
  db_present :: bool
    \<comment> \<open>\<^verbatim>\<open>self.db is not None\<close>\<close>
  create_index_error :: "string \<Rightarrow> index_spec \<Rightarrow> exc option"
    \<comment> \<open>the exception, if any, with which the store answers \<^verbatim>\<open>create_index\<close>\<close>
  insert_many_error :: "string \<Rightarrow> doc list \<Rightarrow> exc option"
    \<comment> \<open>the exception, if any, with which the store answers \<^verbatim>\<open>insert_many\<close>\<close>

subsection \<open>Built-in conversions\<close>

text \<open>
  \<^verbatim>\<open>int(s)\<close> of a string, base 10: surrounding white space (the characters 9 to 13 and
  the blank), an optional sign, digits with single underscores between them. Strings
  are ASCII here; the Unicode digits and spaces that Python also accepts are outside the
  model.
\<close>

definition is_space :: "char \<Rightarrow> bool" where
  "is_space c = (let n = (of_char c :: nat) in (9 \<le> n \<and> n \<le> 13) \<or> n = 32)"

definition digit_of :: "char \<Rightarrow> nat option" where
  "digit_of c = (let n = (of_char c :: nat) in if 48 \<le> n \<and> n \<le> 57 then Some (n - 48) else None)"

fun int_digits :: "nat \<Rightarrow> string \<Rightarrow> nat option" where
  "int_digits acc [] = Some acc"
| "int_digits acc [c] = (case digit_of c of Some d \<Rightarrow> Some (10 * acc + d) | None \<Rightarrow> None)"
| "int_digits acc (c # c' # cs) =
     (case digit_of c of
        Some d \<Rightarrow> int_digits (10 * acc + d) (c' # cs)
      | None \<Rightarrow>
          (if c = CHR ''_'' then
             (case digit_of c' of Some d' \<Rightarrow> int_digits acc (c' # cs) | None \<Rightarrow> None)
           else None))"

definition unsigned_of_str :: "string \<Rightarrow> nat option" where
  "unsigned_of_str s =
     (case s of
        [] \<Rightarrow> None
      | c # cs \<Rightarrow> (case digit_of c of None \<Rightarrow> None | Some d \<Rightarrow> int_digits 0 s))"

definition strip :: "string \<Rightarrow> string" where
  "strip s = rev (dropWhile is_space (rev (dropWhile is_space s)))"

definition int_of_str :: "string \<Rightarrow> int option" where
  "int_of_str s =
     (case strip s of
        [] \<Rightarrow> None
      | c # cs \<Rightarrow>
          (if c = CHR ''-'' then map_option (\<lambda>n. - int n) (unsigned_of_str cs)
           else if c = CHR ''+'' then map_option int (unsigned_of_str cs)
           else map_option int (unsigned_of_str (c # cs))))"

text \<open>\<^verbatim>\<open>int(x)\<close>: truncation of a number, parsing of a string, \<^verbatim>\<open>TypeError\<close> otherwise.\<close>

definition truncate :: "rat \<Rightarrow> int" where
  "truncate x = (if 0 \<le> x then \<lfloor>x\<rfloor> else \<lceil>x\<rceil>)"

fun py_int :: "json \<Rightarrow> exc_class + int" where
  "py_int (JBool b) = Inr (if b then 1 else 0)"
| "py_int (JInt i) = Inr i"
| "py_int (JFloat (Finite x)) = Inr (truncate x)"
| "py_int (JFloat NaN) = Inl ValueError"
| "py_int (JFloat PosInf) = Inl OverflowError"
| "py_int (JFloat NegInf) = Inl OverflowError"
| "py_int (JStr s) = (case int_of_str s of None \<Rightarrow> Inl ValueError | Some i \<Rightarrow> Inr i)"
| "py_int JNull = Inl TypeError"
| "py_int (JArr xs) = Inl TypeError"
| "py_int (JObj d) = Inl TypeError"

text \<open>\<^verbatim>\<open>float(x)\<close>; an integer is rounded to the nearest double.\<close>

fun py_float :: "env \<Rightarrow> json \<Rightarrow> exc_class + pyfloat" where
  "py_float E (JBool b) = Inr (Finite (if b then 1 else 0))"
| "py_float E (JInt i) = Inr (Finite (to_double (of_int i)))"
| "py_float E (JFloat f) = Inr f"
| "py_float E (JStr s) = (case float_of_str E s of None \<Rightarrow> Inl ValueError | Some f \<Rightarrow> Inr f)"
| "py_float E JNull = Inl TypeError"
| "py_float E (JArr xs) = Inl TypeError"
| "py_float E (JObj d) = Inl TypeError"

text \<open>
  \<^verbatim>\<open>x > n\<close> for an integer \<open>n\<close>: numbers compare by value (\<^verbatim>\<open>bool\<close> is a subclass of
  \<^verbatim>\<open>int\<close>, and nothing is greater than a NaN), every other type raises \<^verbatim>\<open>TypeError\<close>.
\<close>

fun py_gt :: "json \<Rightarrow> int \<Rightarrow> exc_class + bool" where
  "py_gt (JBool b) n = Inr ((if b then 1 else 0) > n)"
| "py_gt (JInt i) n = Inr (i > n)"
| "py_gt (JFloat (Finite x)) n = Inr (x > of_int n)"
| "py_gt (JFloat PosInf) n = Inr True"
| "py_gt (JFloat NegInf) n = Inr False"
| "py_gt (JFloat NaN) n = Inr False"
| "py_gt (JStr s) n = Inl TypeError"
| "py_gt JNull n = Inl TypeError"
| "py_gt (JArr xs) n = Inl TypeError"
| "py_gt (JObj d) n = Inl TypeError"

text \<open>\<^verbatim>\<open>x / 1000\<close> on a float.\<close>

fun div1000 :: "pyfloat \<Rightarrow> pyfloat" where
  "div1000 (Finite x) = Finite (to_double (x / 1000))"
| "div1000 f = f"

subsection \<open>The datetime library\<close>

text \<open>
  \<^verbatim>\<open>datetime.utcfromtimestamp\<close> rounds to the nearest microsecond, ties to even, and
  accepts the years 1 to 9999.
\<close>

definition min_micros :: int where
  "min_micros = - 62135596800 * 1000000"

definition max_micros :: int where
  "max_micros = 253402300800 * 1000000 - 1"

fun utcfromtimestamp :: "env \<Rightarrow> pyfloat \<Rightarrow> exc_class + datetime" where
  "utcfromtimestamp E (Finite x) =
     (let us = round_half_even (x * 1000000) in
      if min_micros \<le> us \<and> us \<le> max_micros then Inr (Datetime us) else Inl (out_of_range E x))"
| "utcfromtimestamp E NaN = Inl ValueError"
| "utcfromtimestamp E PosInf = Inl OverflowError"
| "utcfromtimestamp E NegInf = Inl OverflowError"

definition utcnow :: "env \<Rightarrow> datetime" where
  "utcnow E = Datetime \<lfloor>clock E * 1000000\<rfloor>"

text \<open>
  \<^verbatim>\<open>dateutil.parser.parse\<close>: a string goes to the parser, anything else is a
  \<^verbatim>\<open>TypeError\<close> (\<^verbatim>\<open>Parser must be a string or character stream\<close>).
\<close>

fun parse :: "env \<Rightarrow> json \<Rightarrow> exc + datetime" where
  "parse E (JStr s) = dateutil_parse E s"
| "parse E v = Inl (Raised TypeError)"

subsection \<open>\<^verbatim>\<open>parse_datetime\<close> (lines 71 to 94)\<close>

text \<open>
  The body of the first \<^verbatim>\<open>try\<close>, lines 81 to 84. \<^verbatim>\<open>val/1000\<close> is the true division
  of two integers: the double nearest to the quotient.
\<close>

definition first_attempt :: "env \<Rightarrow> json \<Rightarrow> exc_class + datetime" where
  "first_attempt E timestamp =
     (case py_int timestamp of
        Inl c \<Rightarrow> Inl c
      | Inr v \<Rightarrow>
          (case py_gt timestamp (2 ^ 31 - 1) of
             Inl c \<Rightarrow> Inl c
           | Inr True \<Rightarrow> utcfromtimestamp E (Finite (to_double (of_int v / 1000)))
           | Inr False \<Rightarrow>
               (case py_float E timestamp of
                  Inl c \<Rightarrow> Inl c
                | Inr f \<Rightarrow> utcfromtimestamp E f)))"

text \<open>The body of the second \<^verbatim>\<open>try\<close>, line 88.\<close>

definition second_attempt :: "env \<Rightarrow> json \<Rightarrow> exc_class + datetime" where
  "second_attempt E timestamp =
     (case py_float E timestamp of
        Inl c \<Rightarrow> Inl c
      | Inr f \<Rightarrow> utcfromtimestamp E (div1000 f))"

text \<open>
  The result is the log written on the way and the datetime returned or the exception
  raised. \<^verbatim>\<open>except ValueError\<close> lets every other class through, and so does
  \<^verbatim>\<open>except TypeError\<close>.
\<close>

definition parse_datetime :: "env \<Rightarrow> json \<Rightarrow> effect list \<times> (exc + datetime)" where
  "parse_datetime E timestamp =
     (if timestamp = JNull then ([], Inr (utcnow E))
      else
        (case first_attempt E timestamp of
           Inr t \<Rightarrow> ([], Inr t)
         | Inl c1 \<Rightarrow>
             (if is_ValueError c1 then
                (case second_attempt E timestamp of
                   Inr t \<Rightarrow> ([Log Error (FailedToParseTimestamp timestamp c1)], Inr t)
                 | Inl c2 \<Rightarrow>
                     (if is_ValueError c2 then
                        (case parse E timestamp of
                           Inr t \<Rightarrow>
                             ([Log Error (FailedToParseTimestamp timestamp c1),
                               Log Error (FailedToParseTimestamp timestamp c2)], Inr t)
                         | Inl e3 \<Rightarrow>
                             ([Log Error (FailedToParseTimestamp timestamp c1),
                               Log Error (FailedToParseTimestamp timestamp c2)],
                              Inl (if exc_class_of e3 = TypeError then CouldNotParse timestamp e3
                                   else e3)))
                      else
                        ([Log Error (FailedToParseTimestamp timestamp c1)], Inl (Raised c2))))
              else ([], Inl (Raised c1)))))"

subsection \<open>Dictionaries and formatting\<close>

text \<open>\<^verbatim>\<open>d.get(key, None)\<close> on a \<^verbatim>\<open>dict\<close>; only a \<^verbatim>\<open>dict\<close> has the method.\<close>

definition dict_get :: "(string \<times> json) list \<Rightarrow> string \<Rightarrow> json" where
  "dict_get d k = (case map_of d k of None \<Rightarrow> JNull | Some v \<Rightarrow> v)"

fun py_get :: "json \<Rightarrow> string \<Rightarrow> exc + json" where
  "py_get (JObj d) k = Inr (dict_get d k)"
| "py_get v k = Inl (Raised AttributeError)"

text \<open>
  \<^verbatim>\<open>d[key]\<close> with a string key: \<^verbatim>\<open>KeyError\<close> on a \<^verbatim>\<open>dict\<close> without the key,
  \<^verbatim>\<open>TypeError\<close> on every other JSON value.
\<close>

fun py_getitem :: "json \<Rightarrow> string \<Rightarrow> exc + json" where
  "py_getitem (JObj d) k = (case map_of d k of None \<Rightarrow> Inl (Raised KeyError) | Some v \<Rightarrow> Inr v)"
| "py_getitem v k = Inl (Raised TypeError)"

text \<open>\<^verbatim>\<open>d.keys()\<close>: every key once, in insertion order.\<close>

definition dict_keys :: "(string \<times> json) list \<Rightarrow> string list" where
  "dict_keys d = rev (remdups (rev (map fst d)))"

text \<open>\<^verbatim>\<open>data.get('attrs', {}).keys()\<close>.\<close>

fun attrs_keys :: "json \<Rightarrow> exc + string list" where
  "attrs_keys (JObj d) =
     (case map_of d ''attrs'' of
        None \<Rightarrow> Inr []
      | Some (JObj a) \<Rightarrow> Inr (dict_keys a)
      | Some v \<Rightarrow> Inl (Raised AttributeError))"
| "attrs_keys v = Inl (Raised AttributeError)"

text \<open>The decimal digits of a natural number, and \<^verbatim>\<open>str\<close> of an \<^verbatim>\<open>int\<close>.\<close>

fun digits_of_nat :: "nat \<Rightarrow> string" where
  "digits_of_nat n =
     (if n < 10 then [char_of (48 + n)]
      else digits_of_nat (n div 10) @ [char_of (48 + n mod 10)])"

declare digits_of_nat.simps [simp del]

definition str_of_int :: "int \<Rightarrow> string" where
  "str_of_int i = (if i < 0 then CHR ''-'' # digits_of_nat (nat (- i)) else digits_of_nat (nat i))"

text \<open>What \<^verbatim>\<open>'{}'.format(v)\<close> inserts: \<^verbatim>\<open>str(v)\<close>.\<close>

fun py_str :: "env \<Rightarrow> json \<Rightarrow> string" where
  "py_str E (JStr s) = s"
| "py_str E (JInt i) = str_of_int i"
| "py_str E (JBool b) = (if b then ''True'' else ''False'')"
| "py_str E JNull = ''None''"
| "py_str E v = py_repr E v"

subsection \<open>\<^verbatim>\<open>handle_event_data\<close> (lines 96 to 146)\<close>

text \<open>The loop of lines 124 to 130: one \<^verbatim>\<open>docs.append\<close> for each key.\<close>

fun append_attr_docs :: "json \<Rightarrow> json \<Rightarrow> datetime \<Rightarrow> string list \<Rightarrow> doc list \<Rightarrow> exc + doc list" where
  "append_attr_docs data did t [] docs = Inr docs"
| "append_attr_docs data did t (k # ks) docs =
     (case py_getitem data ''attrs'' of
        Inl e \<Rightarrow> Inl e
      | Inr a \<Rightarrow>
          (case py_getitem a k of
             Inl e \<Rightarrow> Inl e
           | Inr v \<Rightarrow> append_attr_docs data did t ks (docs @ [AttrDoc k v did t])))"

text \<open>Lines 123 to 138: the attribute documents, then the status document.\<close>

definition build_docs :: "json \<Rightarrow> json \<Rightarrow> json \<Rightarrow> datetime \<Rightarrow> exc + doc list" where
  "build_docs data metadata did t =
     (case attrs_keys data of
        Inl e \<Rightarrow> Inl e
      | Inr ks \<Rightarrow>
          (case append_attr_docs data did t ks [] of
             Inl e \<Rightarrow> Inl e
           | Inr docs \<Rightarrow>
               (case py_get metadata ''status'' of
                  Inl e \<Rightarrow> Inl e
                | Inr device_status \<Rightarrow>
                    (if device_status = JNull then Inr docs
                     else Inr (docs @ [StatusDoc device_status did t])))))"

text \<open>
  Lines 139 to 146. With \<^verbatim>\<open>self.db\<close> unset, \<^verbatim>\<open>self.db[collection_name]\<close> raises a
  \<^verbatim>\<open>TypeError\<close> before any call reaches the store; \<^verbatim>\<open>except Exception\<close> catches it
  like the errors of the store.
\<close>

definition persist_docs :: "env \<Rightarrow> string \<Rightarrow> json \<Rightarrow> doc list \<Rightarrow> outcome" where
  "persist_docs E tenant did docs =
     (if docs = [] then ([Log Info (GotEmptyEvent did)], None)
      else
        (let collection_name = tenant @ ''_'' @ py_str E did in
         if db_present E then
           (case insert_many_error E collection_name docs of
              None \<Rightarrow> ([InsertMany collection_name docs], None)
            | Some e \<Rightarrow> ([InsertMany collection_name docs, Log Warn (FailedToPersist e)], None))
         else ([Log Warn (FailedToPersist (Raised TypeError))], None)))"

definition handle_event_data :: "env \<Rightarrow> string \<Rightarrow> string \<Rightarrow> outcome" where
  "handle_event_data E tenant message =
     (case loads E message of
        None \<Rightarrow> ([Log Error NotValidJson], None)
      | Some data \<Rightarrow>
          prepend [Log Info (ThisIsTheData data), Log Debug (GotDataEvent message)]
            (case py_get data ''metadata'' of
               Inl e \<Rightarrow> ([], Some e)
             | Inr metadata \<Rightarrow>
                 (if metadata = JNull then ([Log Error NoMetadata], None)
                  else
                    (case py_get metadata ''deviceid'' of
                       Inl e \<Rightarrow> ([], Some e)
                     | Inr did \<Rightarrow>
                         (if did = JNull then ([Log Error NoDevice], None)
                          else
                            (case py_get metadata ''timestamp'' of
                               Inl e \<Rightarrow> ([], Some e)
                             | Inr timestamp \<Rightarrow>
                                 (case parse_datetime E timestamp of
                                    (lg, Inl e) \<Rightarrow> (lg, Some e)
                                  | (lg, Inr t) \<Rightarrow>
                                      prepend lg
                                        (case build_docs data metadata did t of
                                           Inl e \<Rightarrow> ([], Some e)
                                         | Inr docs \<Rightarrow> persist_docs E tenant did docs))))))))"

subsection \<open>\<^verbatim>\<open>create_indexes\<close> (lines 34 to 42)\<close>

text \<open>Two calls to the store; an exception of the first one skips the second.\<close>

definition create_indexes :: "env \<Rightarrow> string \<Rightarrow> outcome" where
  "create_indexes E collection_name =
     (if db_present E then
        (case create_index_error E collection_name TsDescending of
           Some e \<Rightarrow> ([CreateIndex collection_name TsDescending], Some e)
         | None \<Rightarrow>
             (case create_index_error E collection_name (TsExpireAfter (db_expiration E)) of
                Some e \<Rightarrow>
                  ([CreateIndex collection_name TsDescending,
                    CreateIndex collection_name (TsExpireAfter (db_expiration E))], Some e)
              | None \<Rightarrow>
                  ([CreateIndex collection_name TsDescending,
                    CreateIndex collection_name (TsExpireAfter (db_expiration E))], None)))
      else ([], Some (Raised TypeError)))"

subsection \<open>\<^verbatim>\<open>parse_message\<close> (lines 55 to 69)\<close>

text \<open>\<^verbatim>\<open>data[k1][k2]\<close>.\<close>

definition getitem2 :: "json \<Rightarrow> string \<Rightarrow> string \<Rightarrow> exc + json" where
  "getitem2 data k1 k2 = (case py_getitem data k1 of Inl e \<Rightarrow> Inl e | Inr v \<Rightarrow> py_getitem v k2)"

text \<open>\<^verbatim>\<open>int(time.time() * 1000)\<close>: the product is a double.\<close>

definition now_millis :: "env \<Rightarrow> int" where
  "now_millis E = truncate (to_double (clock E * 1000))"

text \<open>The dictionary \<^verbatim>\<open>parsed_message\<close>, its keys in the order of their assignment.\<close>

definition parsed_message :: "json \<Rightarrow> int \<Rightarrow> json \<Rightarrow> json \<Rightarrow> json" where
  "parsed_message attrs millis did tenant =
     JObj [(''attrs'', attrs),
           (''metadata'', JObj [(''timestamp'', JInt millis), (''deviceid'', did), (''tenant'', tenant)])]"

text \<open>The result is the log entry of line 68 and the text returned, or the exception.\<close>

definition parse_message :: "env \<Rightarrow> json \<Rightarrow> exc + (effect list \<times> string)" where
  "parse_message E data =
     (case getitem2 data ''data'' ''attrs'' of
        Inl e \<Rightarrow> Inl e
      | Inr attrs \<Rightarrow>
          (case getitem2 data ''data'' ''id'' of
             Inl e \<Rightarrow> Inl e
           | Inr did \<Rightarrow>
               (case getitem2 data ''meta'' ''service'' of
                  Inl e \<Rightarrow> Inl e
                | Inr service \<Rightarrow>
                    (let m = parsed_message attrs (now_millis E) did service in
                     Inr ([Log Info (NewMessageIs m)], dumps E m)))))"

subsection \<open>\<^verbatim>\<open>handle_event_devices\<close> (lines 148 to 166)\<close>

text \<open>
  \<^verbatim>\<open>json.loads\<close> is called outside any \<^verbatim>\<open>try\<close>, and so is \<^verbatim>\<open>create_indexes\<close>.
  The tenant passed on to \<^verbatim>\<open>handle_event_data\<close> is the handler's own argument.
\<close>

definition handle_event_devices :: "env \<Rightarrow> string \<Rightarrow> string \<Rightarrow> outcome" where
  "handle_event_devices E tenant message =
     (case loads E message of
        None \<Rightarrow> ([], Some (Raised JSONDecodeError))
      | Some data \<Rightarrow>
          prepend [Log Info (GotDeviceEvent data)]
            (case py_getitem data ''event'' of
               Inl e \<Rightarrow> ([], Some e)
             | Inr event \<Rightarrow>
                 (if event = JStr ''configure'' then
                    (case parse_message E data of
                       Inl e \<Rightarrow> ([], Some e)
                     | Inr (lg, new_message) \<Rightarrow> prepend lg (handle_event_data E tenant new_message))
                  else
                    (case getitem2 data ''meta'' ''service'' of
                       Inl e \<Rightarrow> ([], Some e)
                     | Inr service \<Rightarrow>
                         (case getitem2 data ''data'' ''id'' of
                            Inl e \<Rightarrow> ([], Some e)
                          | Inr did \<Rightarrow> create_indexes E (py_str E service @ ''_'' @ py_str E did))))))"

subsection \<open>Reading a trace\<close>

text \<open>The \<^verbatim>\<open>insert_many\<close> calls of a trace: collection and batch.\<close>

fun inserts :: "effect list \<Rightarrow> (string \<times> doc list) list" where
  "inserts [] = []"
| "inserts (InsertMany c ds # tr) = (c, ds) # inserts tr"
| "inserts (Log l m # tr) = inserts tr"
| "inserts (CreateIndex c i # tr) = inserts tr"

text \<open>The calls issued to the store, without the log entries.\<close>

fun store_calls :: "effect list \<Rightarrow> effect list" where
  "store_calls [] = []"
| "store_calls (Log l m # tr) = store_calls tr"
| "store_calls (e # tr) = e # store_calls tr"

subsection \<open>Sample payloads and a sample environment\<close>

text \<open>
  Concrete inputs on which the theorems below are instantiated. The codec of the sample
  environment is a finite table: each text with the value \<^verbatim>\<open>json.loads\<close> gives for
  it, read backwards for \<^verbatim>\<open>json.dumps\<close>; every other text is rejected.
\<close>

definition telemetry_text :: string where
  \<open>telemetry_text =
     ''{"metadata": {"deviceid": "dev1", "tenant": "tenantA", "timestamp": 1500000000}, "attrs": {"temp": 10, "hum": 50}}''\<close>

definition telemetry_json :: json where
  "telemetry_json =
     JObj [(''metadata'', JObj [(''deviceid'', JStr ''dev1''), (''tenant'', JStr ''tenantA''),
                                (''timestamp'', JInt 1500000000)]),
           (''attrs'', JObj [(''temp'', JInt 10), (''hum'', JInt 50)])]"

definition telemetry_other_text :: string where
  \<open>telemetry_other_text =
     ''{"metadata": {"deviceid": "dev1", "tenant": "tenantB", "timestamp": 1500000000}, "attrs": {"temp": 10, "hum": 50}}''\<close>

definition telemetry_other_json :: json where
  "telemetry_other_json =
     JObj [(''metadata'', JObj [(''deviceid'', JStr ''dev1''), (''tenant'', JStr ''tenantB''),
                                (''timestamp'', JInt 1500000000)]),
           (''attrs'', JObj [(''temp'', JInt 10), (''hum'', JInt 50)])]"

definition empty_text :: string where
  \<open>empty_text = ''{"metadata": {"deviceid": "dev1", "timestamp": 1500000000}, "attrs": {}}''\<close>

definition empty_json :: json where
  "empty_json =
     JObj [(''metadata'', JObj [(''deviceid'', JStr ''dev1''), (''timestamp'', JInt 1500000000)]),
           (''attrs'', JObj [])]"

definition status_text :: string where
  \<open>status_text = ''{"metadata": {"deviceid": "dev1", "timestamp": 1500000000, "status": "online"}}''\<close>

definition status_json :: json where
  "status_json =
     JObj [(''metadata'', JObj [(''deviceid'', JStr ''dev1''), (''timestamp'', JInt 1500000000),
                                (''status'', JStr ''online'')])]"

definition create_text :: string where
  \<open>create_text = ''{"event": "create", "meta": {"service": "tenantA"}, "data": {"id": "dev1"}}''\<close>

definition create_json :: json where
  "create_json =
     JObj [(''event'', JStr ''create''),
           (''meta'', JObj [(''service'', JStr ''tenantA'')]),
           (''data'', JObj [(''id'', JStr ''dev1'')])]"

definition configure_text :: string where
  \<open>configure_text =
     ''{"event": "configure", "meta": {"service": "tenantA"}, "data": {"id": "dev1", "attrs": {"fw": "1.2"}}}''\<close>

definition configure_json :: json where
  "configure_json =
     JObj [(''event'', JStr ''configure''),
           (''meta'', JObj [(''service'', JStr ''tenantA'')]),
           (''data'', JObj [(''id'', JStr ''dev1''), (''attrs'', JObj [(''fw'', JStr ''1.2'')])])]"

definition reshaped_text :: string where
  \<open>reshaped_text =
     ''{"attrs": {"fw": "1.2"}, "metadata": {"timestamp": 1600000000000, "deviceid": "dev1", "tenant": "tenantA"}}''\<close>

definition reshaped_json :: json where
  "reshaped_json =
     JObj [(''attrs'', JObj [(''fw'', JStr ''1.2'')]),
           (''metadata'', JObj [(''timestamp'', JInt 1600000000000), (''deviceid'', JStr ''dev1''),
                                (''tenant'', JStr ''tenantA'')])]"

definition sample_table :: "(string \<times> json) list" where
  "sample_table =
     [(telemetry_text, telemetry_json),
      (telemetry_other_text, telemetry_other_json),
      (empty_text, empty_json),
      (status_text, status_json),
      (create_text, create_json),
      (configure_text, configure_json),
      (reshaped_text, reshaped_json)]"

text \<open>
  The clock reads 2020-09-13 12:26:40 UTC, the date parser knows one date and rejects
  every other string with a \<^verbatim>\<open>ValueError\<close> that quotes it, and the store answers
  every call.
\<close>

definition sample_env :: env where
  "sample_env =
     \<lparr>loads = map_of sample_table,
      dumps = (\<lambda>v. case find (\<lambda>p. snd p = v) sample_table of None \<Rightarrow> [] | Some p \<Rightarrow> fst p),
      clock = 1600000000,
      float_of_str = (\<lambda>s. None),
      dateutil_parse =
        (\<lambda>s. if s = ''2020-01-01T00:00:00Z'' then Inr (Datetime 1577836800000000)
             else Inl (RaisedAbout ValueError s)),
      out_of_range = (\<lambda>x. ValueError),
      py_repr = (\<lambda>v. []),
      db_expiration = 604800,
      db_present = True,
      create_index_error = (\<lambda>c i. None),
      insert_many_error = (\<lambda>c ds. None)\<rparr>"

text \<open>The same environment with a store that answers every \<^verbatim>\<open>create_index\<close> with an error.\<close>

definition failing_store_env :: env where
  "failing_store_env = sample_env\<lparr>create_index_error := (\<lambda>c i. Some (Raised PyMongoError))\<rparr>"

section \<open>Properties\<close>

subsection \<open>Dictionaries, traces and outcomes\<close>

lemma set_dict_keys: "set (dict_keys d) = fst ` set d"
  by (simp add: dict_keys_def)

lemma distinct_dict_keys: "distinct (dict_keys d)"
  by (simp add: dict_keys_def)

lemma length_dict_keys: "length (dict_keys d) = card (fst ` set d)"
  using distinct_card [OF distinct_dict_keys, of d] by (simp add: set_dict_keys)

lemma length_dict_keys_dom: "length (dict_keys a) = card (dom (map_of a))"
  by (simp add: length_dict_keys dom_map_of_conv_image_fst)

lemma dict_keys_nil: "dict_keys [] = []"
  by (simp add: dict_keys_def)

lemma dict_keys_eq_Nil: "dict_keys a = [] \<longleftrightarrow> a = []"
  by (simp add: dict_keys_def)

lemma map_of_fst_image: "k \<in> fst ` set a \<Longrightarrow> \<exists>v. map_of a k = Some v"
  by (induction a) auto

lemma inserts_append: "inserts (xs @ ys) = inserts xs @ inserts ys"
  by (induction xs rule: inserts.induct) simp_all

lemma store_calls_append: "store_calls (xs @ ys) = store_calls xs @ store_calls ys"
  by (induction xs rule: store_calls.induct) simp_all

lemma prepend_prepend: "prepend xs (prepend ys r) = prepend (xs @ ys) r"
  by (simp add: prepend_def)

lemma inserts_prepend:
  "inserts (fst (prepend tr r)) = inserts tr @ inserts (fst r)"
  by (simp add: prepend_def inserts_append)

lemma snd_prepend: "snd (prepend tr r) = snd r"
  by (simp add: prepend_def)

lemma store_calls_prepend_logs:
  "store_calls (fst (prepend [Log l1 m1, Log l2 m2] r)) = store_calls (fst r)"
  by (simp add: prepend_def)

subsection \<open>Doubles\<close>

text \<open>An integer below \<open>2\<^sup>5\<^sup>3\<close> in absolute value is a double.\<close>

lemma round_half_even_of_int: "round_half_even (of_int i) = i"
  by (simp add: round_half_even_def)

lemma power2_nonpos: "e \<le> 0 \<Longrightarrow> power2 e = 1 / 2 ^ nat (- e)"
  by (simp add: power2_def)

lemma floor_log2_of_int:
  assumes "0 < n"
  shows "floor_log2 (of_int n) = bitlen n - 1"
proof -
  have b: "2 ^ nat (bitlen n - 1) \<le> n"
    using bitlen_bounds [OF assms] by simp
  have p: "0 \<le> bitlen n - 1"
    using assms by (simp add: bitlen_alt_def)
  have "(of_int (2 ^ nat (bitlen n - 1)) :: rat) \<le> of_int n"
    using b by (simp only: of_int_le_iff)
  then have "power2 (bitlen n - 1) \<le> of_int n"
    using p by (simp add: power2_def)
  moreover have "bitlen (1::int) = 1"
    by (simp add: bitlen_alt_def)
  ultimately show ?thesis
    by (simp add: floor_log2_def)
qed

lemma to_double_of_int:
  assumes "\<bar>i\<bar> < 2 ^ 53"
  shows "to_double (of_int i) = of_int i"
proof (cases "i = 0")
  case True
  then show ?thesis by (simp add: to_double_def)
next
  case False
  define n where "n = \<bar>i\<bar>"
  define m where "m = nat (52 - (bitlen n - 1))"
  have n: "0 < n" using False by (simp add: n_def)
  have a: "\<bar>of_int i :: rat\<bar> = of_int n"
    by (simp add: n_def)
  have "2 ^ nat (bitlen n - 1) \<le> n"
    using bitlen_bounds [OF n] by simp
  also have "n < 2 ^ 53"
    using assms by (simp add: n_def)
  finally have "(2::int) ^ nat (bitlen n - 1) < 2 ^ 53" .
  then have "nat (bitlen n - 1) < 53"
    by (rule power_less_imp_less_exp [rotated]) simp
  then have le: "bitlen n - 1 - 52 \<le> 0"
    by simp
  have u: "power2 (floor_log2 \<bar>of_int i\<bar> - 52) = 1 / 2 ^ m"
    unfolding a floor_log2_of_int [OF n] power2_nonpos [OF le] m_def
    by (simp add: algebra_simps)
  have q: "(of_int i :: rat) / (1 / 2 ^ m) = of_int (i * 2 ^ m)"
    by simp
  have "to_double (of_int i) = of_int (round_half_even (of_int (i * 2 ^ m))) * (1 / 2 ^ m)"
    using False by (simp only: to_double_def Let_def u q of_int_eq_0_iff if_False)
  also have "\<dots> = of_int (i * 2 ^ m) * (1 / 2 ^ m)"
    by (simp only: round_half_even_of_int)
  also have "\<dots> = of_int i"
    by simp
  finally show ?thesis .
qed

lemma to_double_numeral:
  assumes "(numeral k :: int) < 2 ^ 53"
  shows "to_double (numeral k) = numeral k"
  using to_double_of_int [of "numeral k"] assms by simp

lemma to_double_zero: "to_double 0 = 0"
  by (simp add: to_double_def)

subsection \<open>Timestamps\<close>

text \<open>
  On an integer the threshold of line 82 separates seconds from milliseconds: up to
  \<open>2\<^sup>3\<^sup>1 - 1\<close> the value is read as seconds, above as milliseconds. The result is exact
  for seconds, and for a millisecond count that is a whole number of seconds.
\<close>

lemma first_attempt_int:
  "first_attempt E (JInt i) =
     (if 2 ^ 31 - 1 < i then utcfromtimestamp E (Finite (to_double (of_int i / 1000)))
      else utcfromtimestamp E (Finite (to_double (of_int i))))"
  by (simp add: first_attempt_def)

lemma utcfromtimestamp_seconds:
  assumes "min_micros \<le> i * 1000000" and "i * 1000000 \<le> max_micros"
  shows "utcfromtimestamp E (Finite (of_int i)) = Inr (Datetime (i * 1000000))"
proof -
  have "(of_int i :: rat) * 1000000 = of_int (i * 1000000)" by simp
  then have "round_half_even (of_int i * 1000000) = i * 1000000"
    by (simp only: round_half_even_of_int)
  with assms show ?thesis by (simp only: utcfromtimestamp.simps Let_def) simp
qed

lemma first_attempt_int_seconds:
  assumes "i \<le> 2 ^ 31 - 1" and "min_micros \<le> i * 1000000"
  shows "first_attempt E (JInt i) = Inr (Datetime (i * 1000000))"
proof -
  have "i * 1000000 \<le> max_micros" using assms(1) by (simp add: max_micros_def)
  note u = utcfromtimestamp_seconds [OF assms(2) this]
  have "\<bar>i\<bar> < 2 ^ 53"
    using assms by (simp add: min_micros_def)
  then have d: "to_double (of_int i) = of_int i"
    by (rule to_double_of_int)
  show ?thesis
    using assms(1) by (simp add: first_attempt_int d u del: utcfromtimestamp.simps)
qed

lemma first_attempt_int_millis:
  assumes "2 ^ 31 - 1 < i" and "i * 1000 \<le> max_micros" and "i = 1000 * s"
  shows "first_attempt E (JInt i) = Inr (Datetime (i * 1000))"
proof -
  have q: "(of_int i :: rat) / 1000 = of_int s"
    by (simp add: assms(3))
  have "\<bar>s\<bar> < 2 ^ 53"
    using assms by (simp add: max_micros_def)
  then have d: "to_double (of_int s) = of_int s"
    by (rule to_double_of_int)
  have lo: "min_micros \<le> s * 1000000"
    using assms(1,3) by (simp add: min_micros_def)
  have hi: "s * 1000000 \<le> max_micros"
    using assms(2,3) by simp
  have r: "s * 1000000 = i * 1000"
    by (simp add: assms(3))
  have "first_attempt E (JInt i) = utcfromtimestamp E (Finite (to_double (of_int i / 1000)))"
    using assms(1) by (simp add: first_attempt_int del: utcfromtimestamp.simps)
  also have "\<dots> = utcfromtimestamp E (Finite (of_int s))"
    by (simp only: q d)
  also have "\<dots> = Inr (Datetime (i * 1000))"
    by (simp only: utcfromtimestamp_seconds [OF lo hi] r)
  finally show ?thesis .
qed

lemma parse_datetime_int_seconds:
  assumes "i \<le> 2 ^ 31 - 1" and "min_micros \<le> i * 1000000"
  shows "parse_datetime E (JInt i) = ([], Inr (Datetime (i * 1000000)))"
  by (simp add: parse_datetime_def first_attempt_int_seconds [OF assms])

lemma parse_datetime_int_millis:
  assumes "2 ^ 31 - 1 < i" and "i * 1000 \<le> max_micros" and "i = 1000 * s"
  shows "parse_datetime E (JInt i) = ([], Inr (Datetime (i * 1000)))"
  by (simp add: parse_datetime_def first_attempt_int_millis [OF assms])

lemma parse_datetime_sample: "parse_datetime E (JInt 1500000000) = ([], Inr (Datetime 1500000000000000))"
  using parse_datetime_int_seconds [of 1500000000 E] by (simp add: min_micros_def)

lemma parse_datetime_sample_now:
  "parse_datetime E (JInt 1600000000000) = ([], Inr (Datetime 1600000000000000))"
proof -
  have a: "2 ^ 31 - 1 < (1600000000000::int)"
    by simp
  have b: "(1600000000000::int) * 1000 \<le> max_micros"
    by (simp add: max_micros_def)
  have c: "(1600000000000::int) = 1000 * 1600000000"
    by simp
  have "parse_datetime E (JInt 1600000000000) = ([], Inr (Datetime (1600000000000 * 1000)))"
    by (rule parse_datetime_int_millis [OF a b c])
  then show ?thesis by simp
qed

lemma parse_datetime_log_inserts: "inserts (fst (parse_datetime E x)) = []"
  unfolding parse_datetime_def
  by (cases "first_attempt E x"; cases "second_attempt E x"; cases "parse E x"; simp)

lemma first_attempt_numeric_string:
  assumes "int_of_str s = Some i"
  shows "first_attempt E (JStr s) = Inl TypeError"
  using assms by (simp add: first_attempt_def)

lemma parse_datetime_numeric_string:
  assumes "int_of_str s = Some i"
  shows "parse_datetime E (JStr s) = ([], Inl (Raised TypeError))"
  by (simp add: parse_datetime_def first_attempt_numeric_string [OF assms] is_ValueError_def)


text \<open>
  Claim C1, evaluated on a numeric string: the comparison of line 82 is between the
  string and an integer, and its \<^verbatim>\<open>TypeError\<close> leaves \<^verbatim>\<open>parse_datetime\<close>.
\<close>

theorem numeric_string_raises_type_error:
  "parse_datetime E (JStr ''1500000000'') = ([], Inl (Raised TypeError))"
proof -
  have "int_of_str ''1500000000'' = Some 1500000000"
    by (simp add: int_of_str_def strip_def is_space_def unsigned_of_str_def digit_of_def)
  then show ?thesis by (rule parse_datetime_numeric_string)
qed



subsection \<open>Building and persisting documents\<close>

lemma append_attr_docs_keys:
  assumes "map_of d ''attrs'' = Some (JObj a)" and "set ks \<subseteq> fst ` set a"
  shows "append_attr_docs (JObj d) did t ks docs =
           Inr (docs @ map (\<lambda>k. AttrDoc k (dict_get a k) did t) ks)"
  using assms(2)
proof (induction ks arbitrary: docs)
  case Nil
  show ?case by simp
next
  case (Cons k ks)
  have g: "py_getitem (JObj d) ''attrs'' = Inr (JObj a)"
    by (simp add: assms(1))
  from Cons.prems have "k \<in> fst ` set a" by simp
  then have "\<exists>v. map_of a k = Some v"
    by (rule map_of_fst_image)
  then obtain v where v: "map_of a k = Some v" ..
  have h: "py_getitem (JObj a) k = Inr v"
    by (simp add: v)
  have w: "dict_get a k = v"
    by (simp add: dict_get_def v)
  from Cons.prems have "set ks \<subseteq> fst ` set a" by simp
  then have "append_attr_docs (JObj d) did t ks (docs @ [AttrDoc k v did t]) =
               Inr ((docs @ [AttrDoc k v did t]) @ map (\<lambda>k. AttrDoc k (dict_get a k) did t) ks)"
    by (rule Cons.IH)
  then show ?case
    by (simp add: g h w del: py_getitem.simps)
qed

lemma append_attr_docs_cong:
  assumes "py_getitem data1 ''attrs'' = py_getitem data2 ''attrs''"
  shows "append_attr_docs data1 did t ks docs = append_attr_docs data2 did t ks docs"
proof (induction ks arbitrary: docs)
  case Nil
  show ?case by (simp only: append_attr_docs.simps)
next
  case (Cons k ks)
  show ?case
  proof (cases "py_getitem data2 ''attrs''")
    case (Inl e)
    then show ?thesis by (simp only: append_attr_docs.simps assms sum.case)
  next
    case (Inr a)
    show ?thesis
    proof (cases "py_getitem a k")
      case (Inl e)
      then show ?thesis by (simp only: append_attr_docs.simps assms Inr sum.case)
    next
      case v: (Inr v)
      show ?thesis
        by (simp only: append_attr_docs.simps assms Inr v sum.case Cons.IH)
    qed
  qed
qed

lemma build_docs_attrs:
  assumes "map_of d ''attrs'' = Some (JObj a)"
  shows "build_docs (JObj d) (JObj md) did t =
           Inr (map (\<lambda>k. AttrDoc k (dict_get a k) did t) (dict_keys a) @
                (if dict_get md ''status'' = JNull then []
                 else [StatusDoc (dict_get md ''status'') did t]))"
proof -
  have "append_attr_docs (JObj d) did t (dict_keys a) [] =
          Inr ([] @ map (\<lambda>k. AttrDoc k (dict_get a k) did t) (dict_keys a))"
    by (rule append_attr_docs_keys [OF assms]) (simp add: set_dict_keys)
  then show ?thesis
    by (simp add: build_docs_def assms)
qed

lemma build_docs_no_attrs:
  assumes "map_of d ''attrs'' = None"
  shows "build_docs (JObj d) (JObj md) did t =
           Inr (if dict_get md ''status'' = JNull then []
                else [StatusDoc (dict_get md ''status'') did t])"
  by (simp add: build_docs_def assms)

lemma build_docs_cong:
  assumes "map_of d1 ''attrs'' = map_of d2 ''attrs''"
    and "dict_get md1 ''status'' = dict_get md2 ''status''"
  shows "build_docs (JObj d1) (JObj md1) did t = build_docs (JObj d2) (JObj md2) did t"
proof -
  have k: "attrs_keys (JObj d1) = attrs_keys (JObj d2)"
    by (simp add: assms(1))
  have g: "py_getitem (JObj d1) ''attrs'' = py_getitem (JObj d2) ''attrs''"
    by (simp add: assms(1))
  have a: "append_attr_docs (JObj d1) did t ks [] = append_attr_docs (JObj d2) did t ks []" for ks
    by (rule append_attr_docs_cong [OF g])
  show ?thesis
    unfolding build_docs_def k a py_get.simps assms(2) ..
qed

lemma snd_persist_docs: "snd (persist_docs E tenant did docs) = None"
  by (simp add: persist_docs_def Let_def split: option.splits)

lemma inserts_persist_docs:
  "inserts (fst (persist_docs E tenant did docs)) =
     (if docs \<noteq> [] \<and> db_present E then [(tenant @ ''_'' @ py_str E did, docs)] else [])"
  by (simp add: persist_docs_def Let_def split: option.splits)

lemma insert_targets_persist_docs:
  "list_all (\<lambda>c. c = tenant @ ''_'' @ py_str E did)
     (map fst (inserts (fst (persist_docs E tenant did docs))))"
  by (simp add: inserts_persist_docs)

subsection \<open>The telemetry handler\<close>

lemma handle_event_data_not_json:
  assumes "loads E message = None"
  shows "handle_event_data E tenant message = ([Log Error NotValidJson], None)"
  by (simp add: handle_event_data_def assms)

lemma handle_event_data_envelope:
  assumes "loads E message = Some (JObj d)"
    and "dict_get d ''metadata'' = JObj md"
    and "dict_get md ''deviceid'' \<noteq> JNull"
    and "parse_datetime E (dict_get md ''timestamp'') = (lg, Inr t)"
  shows "handle_event_data E tenant message =
           prepend ([Log Info (ThisIsTheData (JObj d)), Log Debug (GotDataEvent message)] @ lg)
             (case build_docs (JObj d) (JObj md) (dict_get md ''deviceid'') t of
                Inl e \<Rightarrow> ([], Some e)
              | Inr docs \<Rightarrow> persist_docs E tenant (dict_get md ''deviceid'') docs)"
  by (simp add: handle_event_data_def assms prepend_prepend)

lemma handle_event_data_metadata:
  assumes "loads E message = Some (JObj d)"
    and "map_of d ''metadata'' = Some (JObj md)"
  shows "handle_event_data E tenant message =
           prepend [Log Info (ThisIsTheData (JObj d)), Log Debug (GotDataEvent message)]
             (if dict_get md ''deviceid'' = JNull then ([Log Error NoDevice], None)
              else
                (case parse_datetime E (dict_get md ''timestamp'') of
                   (lg, Inl e) \<Rightarrow> (lg, Some e)
                 | (lg, Inr t) \<Rightarrow>
                     prepend lg
                       (case build_docs (JObj d) (JObj md) (dict_get md ''deviceid'') t of
                          Inl e \<Rightarrow> ([], Some e)
                        | Inr docs \<Rightarrow> persist_docs E tenant (dict_get md ''deviceid'') docs)))"
proof -
  have m: "dict_get d ''metadata'' = JObj md"
    by (simp add: dict_get_def assms(2))
  show ?thesis
    by (simp add: handle_event_data_def assms(1) m)
qed

lemma insert_targets_body:
  "list_all (\<lambda>c. c = tenant @ ''_'' @ py_str E did)
     (map fst (inserts (fst
       (case parse_datetime E x of
          (lg, Inl e) \<Rightarrow> (lg, Some e)
        | (lg, Inr t) \<Rightarrow>
            prepend lg
              (case build_docs data metadata did t of
                 Inl e \<Rightarrow> ([], Some e)
               | Inr docs \<Rightarrow> persist_docs E tenant did docs)))))"
proof (cases "parse_datetime E x")
  case (Pair lg r)
  have l: "inserts lg = []"
    using parse_datetime_log_inserts [of E x] by (simp add: Pair)
  show ?thesis
  proof (cases r)
    case (Inl e)
    then show ?thesis by (simp add: Pair l)
  next
    case t: (Inr t)
    show ?thesis
    proof (cases "build_docs data metadata did t")
      case (Inl e)
      then show ?thesis by (simp add: Pair t l inserts_prepend)
    next
      case (Inr docs)
      then show ?thesis
        using insert_targets_persist_docs [of tenant E did docs]
        by (simp add: Pair t l inserts_prepend)
    qed
  qed
qed

subsection \<open>The sample environment\<close>

lemma sample_env_store:
  "db_present sample_env"
  "insert_many_error sample_env c ds = None"
  "create_index_error sample_env c i = None"
  "db_expiration sample_env = 604800"
  by (simp_all add: sample_env_def)

lemma loads_sample_telemetry: "loads sample_env telemetry_text = Some telemetry_json"
  by (simp add: sample_env_def sample_table_def telemetry_text_def)

lemma loads_sample_telemetry_other: "loads sample_env telemetry_other_text = Some telemetry_other_json"
  by (simp add: sample_env_def sample_table_def telemetry_text_def telemetry_other_text_def)

lemma loads_sample_empty: "loads sample_env empty_text = Some empty_json"
  by (simp add: sample_env_def sample_table_def telemetry_text_def telemetry_other_text_def
      empty_text_def)

lemma loads_sample_status: "loads sample_env status_text = Some status_json"
  by (simp add: sample_env_def sample_table_def telemetry_text_def telemetry_other_text_def
      empty_text_def status_text_def)

lemma loads_sample_create: "loads sample_env create_text = Some create_json"
  by (simp add: sample_env_def sample_table_def telemetry_text_def telemetry_other_text_def
      empty_text_def status_text_def create_text_def)

lemma loads_sample_configure: "loads sample_env configure_text = Some configure_json"
  by (simp add: sample_env_def sample_table_def telemetry_text_def telemetry_other_text_def
      empty_text_def status_text_def create_text_def configure_text_def)

lemma loads_sample_reshaped: "loads sample_env reshaped_text = Some reshaped_json"
  by (simp add: sample_env_def sample_table_def telemetry_text_def telemetry_other_text_def
      empty_text_def status_text_def create_text_def configure_text_def reshaped_text_def)

lemma dumps_sample_reshaped: "dumps sample_env reshaped_json = reshaped_text"
  by (simp add: sample_env_def sample_table_def telemetry_json_def telemetry_other_json_def
      empty_json_def status_json_def create_json_def configure_json_def reshaped_json_def)

lemma sample_round_trip: "loads sample_env (dumps sample_env reshaped_json) = Some reshaped_json"
  by (simp only: dumps_sample_reshaped loads_sample_reshaped)

lemma now_millis_sample: "now_millis sample_env = 1600000000000"
proof -
  have "to_double (1600000000000 :: rat) = 1600000000000"
    by (rule to_double_numeral) simp
  then show ?thesis
    by (simp add: now_millis_def truncate_def sample_env_def)
qed

lemma loads_failing_store_env: "loads failing_store_env = loads sample_env"
  by (simp add: failing_store_env_def)

lemma create_json_fields:
  "py_getitem create_json ''event'' = Inr (JStr ''create'')"
  "getitem2 create_json ''meta'' ''service'' = Inr (JStr ''tenantA'')"
  "getitem2 create_json ''data'' ''id'' = Inr (JStr ''dev1'')"
  by (simp_all add: create_json_def getitem2_def)

lemma configure_json_fields:
  "py_getitem configure_json ''event'' = Inr (JStr ''configure'')"
  "getitem2 configure_json ''data'' ''attrs'' = Inr (JObj [(''fw'', JStr ''1.2'')])"
  "getitem2 configure_json ''data'' ''id'' = Inr (JStr ''dev1'')"
  "getitem2 configure_json ''meta'' ''service'' = Inr (JStr ''tenantA'')"
  by (simp_all add: configure_json_def getitem2_def)

lemma reshaped_json_parsed:
  "reshaped_json =
     parsed_message (JObj [(''fw'', JStr ''1.2'')]) (now_millis sample_env) (JStr ''dev1'') (JStr ''tenantA'')"
  by (simp add: reshaped_json_def parsed_message_def now_millis_sample)

lemma handle_event_data_sample_other:
  "handle_event_data sample_env ''tenantA'' telemetry_other_text =
     ([Log Info (ThisIsTheData telemetry_other_json), Log Debug (GotDataEvent telemetry_other_text),
       InsertMany ''tenantA_dev1''
         [AttrDoc ''temp'' (JInt 10) (JStr ''dev1'') (Datetime 1500000000000000),
          AttrDoc ''hum'' (JInt 50) (JStr ''dev1'') (Datetime 1500000000000000)]], None)"
proof -
  have l: "loads sample_env telemetry_other_text =
             Some (JObj [(''metadata'', JObj [(''deviceid'', JStr ''dev1''), (''tenant'', JStr ''tenantB''),
                                (''timestamp'', JInt 1500000000)]),
                         (''attrs'', JObj [(''temp'', JInt 10), (''hum'', JInt 50)])])"
    using loads_sample_telemetry_other by (simp add: telemetry_other_json_def)
  have m: "map_of [(''metadata'', JObj [(''deviceid'', JStr ''dev1''), (''tenant'', JStr ''tenantB''),
                                (''timestamp'', JInt 1500000000)]),
                   (''attrs'', JObj [(''temp'', JInt 10), (''hum'', JInt 50)])] ''metadata'' =
             Some (JObj [(''deviceid'', JStr ''dev1''), (''tenant'', JStr ''tenantB''),
                         (''timestamp'', JInt 1500000000)])"
    by simp
  have a: "map_of [(''metadata'', JObj [(''deviceid'', JStr ''dev1''), (''tenant'', JStr ''tenantB''),
                                (''timestamp'', JInt 1500000000)]),
                   (''attrs'', JObj [(''temp'', JInt 10), (''hum'', JInt 50)])] ''attrs'' =
             Some (JObj [(''temp'', JInt 10), (''hum'', JInt 50)])"
    by simp
  show ?thesis
    unfolding handle_event_data_metadata [OF l m] build_docs_attrs [OF a] telemetry_other_json_def
    by (simp add: dict_get_def parse_datetime_sample dict_keys_def persist_docs_def prepend_def
        sample_env_store)
qed

subsection \<open>Telemetry events\<close>

text \<open>
  Claim C7. A well-formed telemetry envelope (metadata and a device id present, a timestamp
  that \<^verbatim>\<open>parse_datetime\<close> accepts) whose \<^verbatim>\<open>attrs\<close> mapping has \<open>n\<close> keys and whose
  metadata carries no status: \<^verbatim>\<open>handle_event_data\<close> builds exactly \<open>n\<close> documents, all
  of them attribute documents (so no status document), all carrying the one timestamp
  returned by \<^verbatim>\<open>parse_datetime\<close>, and hands that batch to lines 139 to 146.
\<close>

theorem one_attribute_document_per_key:
  assumes "loads E message = Some (JObj d)"
    and "dict_get d ''metadata'' = JObj md"
    and "dict_get md ''deviceid'' = did"
    and "did \<noteq> JNull"
    and "dict_get md ''status'' = JNull"
    and "map_of d ''attrs'' = Some (JObj a)"
    and "parse_datetime E (dict_get md ''timestamp'') = (lg, Inr t)"
  shows "\<exists>docs. build_docs (JObj d) (JObj md) did t = Inr docs
           \<and> handle_event_data E tenant message =
               prepend ([Log Info (ThisIsTheData (JObj d)), Log Debug (GotDataEvent message)] @ lg)
                 (persist_docs E tenant did docs)
           \<and> length docs = card (dom (map_of a))
           \<and> list_all is_AttrDoc docs
           \<and> list_all (\<lambda>x. ts x = t) docs"
proof -
  let ?docs = "map (\<lambda>k. AttrDoc k (dict_get a k) did t) (dict_keys a)"
  have b: "build_docs (JObj d) (JObj md) did t = Inr ?docs"
    by (simp add: build_docs_attrs [OF assms(6)] assms(5))
  have nn: "dict_get md ''deviceid'' \<noteq> JNull"
    using assms(3,4) by simp
  have h: "handle_event_data E tenant message =
             prepend ([Log Info (ThisIsTheData (JObj d)), Log Debug (GotDataEvent message)] @ lg)
               (persist_docs E tenant did ?docs)"
    using handle_event_data_envelope [OF assms(1,2) nn assms(7), of tenant] b
    by (simp add: assms(3))
  have l: "length ?docs = card (dom (map_of a))"
    by (simp add: length_dict_keys_dom)
  have p: "list_all is_AttrDoc ?docs"
    by (simp add: list_all_iff)
  have q: "list_all (\<lambda>x. ts x = t) ?docs"
    by (simp add: list_all_iff)
  from b h l p q show ?thesis by blast
qed

theorem one_attribute_document_per_key_witness:
  "\<exists>docs. build_docs telemetry_json
             (JObj [(''deviceid'', JStr ''dev1''), (''tenant'', JStr ''tenantA''),
                    (''timestamp'', JInt 1500000000)])
             (JStr ''dev1'') (Datetime 1500000000000000) = Inr docs
           \<and> handle_event_data sample_env ''tenantA'' telemetry_text =
               prepend ([Log Info (ThisIsTheData telemetry_json), Log Debug (GotDataEvent telemetry_text)] @ [])
                 (persist_docs sample_env ''tenantA'' (JStr ''dev1'') docs)
           \<and> length docs = card (dom (map_of [(''temp'', JInt 10), (''hum'', JInt 50)]))
           \<and> list_all is_AttrDoc docs
           \<and> list_all (\<lambda>x. ts x = Datetime 1500000000000000) docs"
proof -
  have 1: "loads sample_env telemetry_text =
             Some (JObj [(''metadata'', JObj [(''deviceid'', JStr ''dev1''), (''tenant'', JStr ''tenantA''),
                                (''timestamp'', JInt 1500000000)]),
           (''attrs'', JObj [(''temp'', JInt 10), (''hum'', JInt 50)])])"
    using loads_sample_telemetry by (simp add: telemetry_json_def)
  have 7: "parse_datetime sample_env
             (dict_get [(''deviceid'', JStr ''dev1''), (''tenant'', JStr ''tenantA''),
                        (''timestamp'', JInt 1500000000)] ''timestamp'') =
             ([], Inr (Datetime 1500000000000000))"
    by (simp add: dict_get_def parse_datetime_sample)
  show ?thesis
    unfolding telemetry_json_def
    by (rule one_attribute_document_per_key [OF 1 _ _ _ _ _ 7]) (simp_all add: dict_get_def)
qed

text \<open>
  Claim C8. A well-formed telemetry envelope with an empty \<^verbatim>\<open>attrs\<close> mapping and no
  status: the documents built are the empty list, the trace of the handler has no
  \<^verbatim>\<open>insert_many\<close> call, the handler returns without an exception, and the outcome
  is the info-level entry of line 146, which ends the trace. (The entries \<open>lg\<close> before it
  are those \<^verbatim>\<open>parse_datetime\<close> wrote about the timestamp.)
\<close>

theorem empty_event_is_not_persisted:
  assumes "loads E message = Some (JObj d)"
    and "dict_get d ''metadata'' = JObj md"
    and "dict_get md ''deviceid'' = did"
    and "did \<noteq> JNull"
    and "dict_get md ''status'' = JNull"
    and "map_of d ''attrs'' = Some (JObj [])"
    and "parse_datetime E (dict_get md ''timestamp'') = (lg, Inr t)"
  shows "build_docs (JObj d) (JObj md) did t = Inr []
           \<and> handle_event_data E tenant message =
               ([Log Info (ThisIsTheData (JObj d)), Log Debug (GotDataEvent message)] @ lg @
                [Log Info (GotEmptyEvent did)], None)
           \<and> inserts (fst (handle_event_data E tenant message)) = []"
proof -
  have b: "build_docs (JObj d) (JObj md) did t = Inr []"
    by (simp add: build_docs_attrs [OF assms(6)] assms(5) dict_keys_nil)
  have nn: "dict_get md ''deviceid'' \<noteq> JNull"
    using assms(3,4) by simp
  have h: "handle_event_data E tenant message =
             ([Log Info (ThisIsTheData (JObj d)), Log Debug (GotDataEvent message)] @ lg @
              [Log Info (GotEmptyEvent did)], None)"
    using handle_event_data_envelope [OF assms(1,2) nn assms(7), of tenant] b
    by (simp add: assms(3) persist_docs_def prepend_def)
  have "inserts lg = []"
    using parse_datetime_log_inserts [of E "dict_get md ''timestamp''"] by (simp add: assms(7))
  then have i: "inserts (fst (handle_event_data E tenant message)) = []"
    by (simp add: h inserts_append)
  from b h i show ?thesis by simp
qed

theorem empty_event_is_not_persisted_witness:
  "build_docs empty_json (JObj [(''deviceid'', JStr ''dev1''), (''timestamp'', JInt 1500000000)])
     (JStr ''dev1'') (Datetime 1500000000000000) = Inr []
   \<and> handle_event_data sample_env ''tenantA'' empty_text =
       ([Log Info (ThisIsTheData empty_json), Log Debug (GotDataEvent empty_text)] @ [] @
        [Log Info (GotEmptyEvent (JStr ''dev1''))], None)
   \<and> inserts (fst (handle_event_data sample_env ''tenantA'' empty_text)) = []"
proof -
  have 1: "loads sample_env empty_text =
             Some (JObj [(''metadata'', JObj [(''deviceid'', JStr ''dev1''), (''timestamp'', JInt 1500000000)]),
                         (''attrs'', JObj [])])"
    using loads_sample_empty by (simp add: empty_json_def)
  have 7: "parse_datetime sample_env
             (dict_get [(''deviceid'', JStr ''dev1''), (''timestamp'', JInt 1500000000)] ''timestamp'') =
             ([], Inr (Datetime 1500000000000000))"
    by (simp add: dict_get_def parse_datetime_sample)
  show ?thesis
    unfolding empty_json_def
    by (rule empty_event_is_not_persisted [OF 1 _ _ _ _ _ 7]) (simp_all add: dict_get_def)
qed

text \<open>
  Claim C9. A telemetry envelope with metadata and a device id, a timestamp that
  \<^verbatim>\<open>parse_datetime\<close> accepts, and no \<^verbatim>\<open>attrs\<close> key at all: the handler raises
  nothing, no attribute document is built, and the batch handed to lines 139 to 146 is
  empty when the metadata has no status and is the one status document when it has;
  with a status and a database handle, that one batch is the single \<^verbatim>\<open>insert_many\<close>
  call.
\<close>

theorem absent_attrs_is_empty_mapping:
  assumes "loads E message = Some (JObj d)"
    and "dict_get d ''metadata'' = JObj md"
    and "dict_get md ''deviceid'' = did"
    and "did \<noteq> JNull"
    and "dict_get md ''status'' = st"
    and "map_of d ''attrs'' = None"
    and "parse_datetime E (dict_get md ''timestamp'') = (lg, Inr t)"
  shows "snd (handle_event_data E tenant message) = None
           \<and> build_docs (JObj d) (JObj md) did t =
               Inr (if st = JNull then [] else [StatusDoc st did t])
           \<and> handle_event_data E tenant message =
               prepend ([Log Info (ThisIsTheData (JObj d)), Log Debug (GotDataEvent message)] @ lg)
                 (persist_docs E tenant did (if st = JNull then [] else [StatusDoc st did t]))
           \<and> inserts (fst (handle_event_data E tenant message)) =
               (if st \<noteq> JNull \<and> db_present E
                then [(tenant @ ''_'' @ py_str E did, [StatusDoc st did t])] else [])"
proof -
  let ?docs = "if st = JNull then [] else [StatusDoc st did t]"
  have b: "build_docs (JObj d) (JObj md) did t = Inr ?docs"
    by (simp add: build_docs_no_attrs [OF assms(6)] assms(5))
  have nn: "dict_get md ''deviceid'' \<noteq> JNull"
    using assms(3,4) by simp
  have h: "handle_event_data E tenant message =
             prepend ([Log Info (ThisIsTheData (JObj d)), Log Debug (GotDataEvent message)] @ lg)
               (persist_docs E tenant did ?docs)"
    using handle_event_data_envelope [OF assms(1,2) nn assms(7), of tenant]
    by (simp only: b assms(3) sum.case)
  have s: "snd (handle_event_data E tenant message) = None"
    by (simp only: h snd_prepend snd_persist_docs)
  have "inserts lg = []"
    using parse_datetime_log_inserts [of E "dict_get md ''timestamp''"] by (simp add: assms(7))
  then have i: "inserts (fst (handle_event_data E tenant message)) =
                  (if st \<noteq> JNull \<and> db_present E
                   then [(tenant @ ''_'' @ py_str E did, [StatusDoc st did t])] else [])"
    by (simp add: h inserts_prepend inserts_append inserts_persist_docs)
  from s b h i show ?thesis by (intro conjI)
qed

theorem absent_attrs_is_empty_mapping_witness:
  "snd (handle_event_data sample_env ''tenantA'' status_text) = None
   \<and> build_docs status_json
       (JObj [(''deviceid'', JStr ''dev1''), (''timestamp'', JInt 1500000000), (''status'', JStr ''online'')])
       (JStr ''dev1'') (Datetime 1500000000000000) =
       Inr [StatusDoc (JStr ''online'') (JStr ''dev1'') (Datetime 1500000000000000)]
   \<and> inserts (fst (handle_event_data sample_env ''tenantA'' status_text)) =
       [(''tenantA_dev1'', [StatusDoc (JStr ''online'') (JStr ''dev1'') (Datetime 1500000000000000)])]"
proof -
  have 1: "loads sample_env status_text =
             Some (JObj [(''metadata'', JObj [(''deviceid'', JStr ''dev1''), (''timestamp'', JInt 1500000000),
                                (''status'', JStr ''online'')])])"
    using loads_sample_status by (simp add: status_json_def)
  have 2: "dict_get [(''metadata'', JObj [(''deviceid'', JStr ''dev1''), (''timestamp'', JInt 1500000000),
                                (''status'', JStr ''online'')])] ''metadata'' =
             JObj [(''deviceid'', JStr ''dev1''), (''timestamp'', JInt 1500000000), (''status'', JStr ''online'')]"
    by (simp add: dict_get_def)
  have 3: "dict_get [(''deviceid'', JStr ''dev1''), (''timestamp'', JInt 1500000000),
                     (''status'', JStr ''online'')] ''deviceid'' = JStr ''dev1''"
    by (simp add: dict_get_def)
  have 4: "JStr ''dev1'' \<noteq> JNull" by simp
  have 5: "dict_get [(''deviceid'', JStr ''dev1''), (''timestamp'', JInt 1500000000),
                     (''status'', JStr ''online'')] ''status'' = JStr ''online''"
    by (simp add: dict_get_def)
  have 6: "map_of [(''metadata'', JObj [(''deviceid'', JStr ''dev1''), (''timestamp'', JInt 1500000000),
                                (''status'', JStr ''online'')])] ''attrs'' = None"
    by simp
  have 7: "parse_datetime sample_env
             (dict_get [(''deviceid'', JStr ''dev1''), (''timestamp'', JInt 1500000000),
                        (''status'', JStr ''online'')] ''timestamp'') =
             ([], Inr (Datetime 1500000000000000))"
    by (simp add: dict_get_def parse_datetime_sample)
  have p: "db_present sample_env" by (simp add: sample_env_def)
  note r = absent_attrs_is_empty_mapping [OF 1 2 3 4 5 6 7, of "''tenantA''"]
  from r [THEN conjunct1] r [THEN conjunct2, THEN conjunct1]
    r [THEN conjunct2, THEN conjunct2, THEN conjunct2] p
  show ?thesis
    by (simp add: status_json_def)
qed

text \<open>
  Claim C10. Two telemetry envelopes that differ only in \<^verbatim>\<open>metadata.tenant\<close> (they
  agree on every key but \<^verbatim>\<open>metadata\<close>, and their metadata agree on every key but
  \<^verbatim>\<open>tenant\<close>), handled with the same tenant argument: the handler issues the same calls
  to the store, with the same documents, and ends the same way; the documents built are
  the same; and every \<^verbatim>\<open>insert_many\<close> goes to the collection named from the tenant
  argument and \<^verbatim>\<open>metadata.deviceid\<close>.
\<close>

theorem metadata_tenant_is_never_read:
  assumes "loads E message1 = Some (JObj d1)"
    and "loads E message2 = Some (JObj d2)"
    and "map_of d1 ''metadata'' = Some (JObj md1)"
    and "map_of d2 ''metadata'' = Some (JObj md2)"
    and "\<forall>k. k \<noteq> ''metadata'' \<longrightarrow> map_of d1 k = map_of d2 k"
    and "\<forall>k. k \<noteq> ''tenant'' \<longrightarrow> map_of md1 k = map_of md2 k"
  shows "store_calls (fst (handle_event_data E tenant message1)) =
           store_calls (fst (handle_event_data E tenant message2))
         \<and> snd (handle_event_data E tenant message1) = snd (handle_event_data E tenant message2)
         \<and> build_docs (JObj d1) (JObj md1) did t = build_docs (JObj d2) (JObj md2) did t
         \<and> list_all (\<lambda>c. c = tenant @ ''_'' @ py_str E (dict_get md1 ''deviceid''))
             (map fst (inserts (fst (handle_event_data E tenant message1))))"
proof -
  have a: "map_of d1 ''attrs'' = map_of d2 ''attrs''"
    using assms(5) by simp
  have dev: "dict_get md1 ''deviceid'' = dict_get md2 ''deviceid''"
    using assms(6) by (simp add: dict_get_def)
  have tim: "dict_get md1 ''timestamp'' = dict_get md2 ''timestamp''"
    using assms(6) by (simp add: dict_get_def)
  have sta: "dict_get md1 ''status'' = dict_get md2 ''status''"
    using assms(6) by (simp add: dict_get_def)
  have b: "build_docs (JObj d1) (JObj md1) x y = build_docs (JObj d2) (JObj md2) x y" for x y
    by (rule build_docs_cong [OF a sta])
  note h1 = handle_event_data_metadata [OF assms(1) assms(3), of tenant]
  note h2 = handle_event_data_metadata [OF assms(2) assms(4), of tenant]
  have 1: "store_calls (fst (handle_event_data E tenant message1)) =
             store_calls (fst (handle_event_data E tenant message2))"
    unfolding h1 h2 store_calls_prepend_logs dev tim b ..
  have 2: "snd (handle_event_data E tenant message1) = snd (handle_event_data E tenant message2)"
    unfolding h1 h2 snd_prepend dev tim b ..
  have 4: "list_all (\<lambda>c. c = tenant @ ''_'' @ py_str E (dict_get md1 ''deviceid''))
             (map fst (inserts (fst (handle_event_data E tenant message1))))"
  proof (cases "dict_get md1 ''deviceid'' = JNull")
    case True
    then show ?thesis by (simp add: h1 inserts_prepend)
  next
    case False
    then show ?thesis
      using insert_targets_body [where tenant = tenant and E = E
          and did = "dict_get md1 ''deviceid''" and x = "dict_get md1 ''timestamp''"
          and data = "JObj d1" and metadata = "JObj md1"]
      by (simp add: h1 inserts_prepend)
  qed
  from 1 2 b 4 show ?thesis by (intro conjI)
qed

theorem metadata_tenant_is_never_read_witness:
  "store_calls (fst (handle_event_data sample_env ''tenantA'' telemetry_text)) =
     store_calls (fst (handle_event_data sample_env ''tenantA'' telemetry_other_text))
   \<and> snd (handle_event_data sample_env ''tenantA'' telemetry_text) =
       snd (handle_event_data sample_env ''tenantA'' telemetry_other_text)
   \<and> list_all (\<lambda>c. c = ''tenantA_dev1'')
       (map fst (inserts (fst (handle_event_data sample_env ''tenantA'' telemetry_text))))
   \<and> store_calls (fst (handle_event_data sample_env ''tenantA'' telemetry_other_text)) =
       [InsertMany ''tenantA_dev1''
          [AttrDoc ''temp'' (JInt 10) (JStr ''dev1'') (Datetime 1500000000000000),
           AttrDoc ''hum'' (JInt 50) (JStr ''dev1'') (Datetime 1500000000000000)]]"
proof -
  have 1: "loads sample_env telemetry_text =
             Some (JObj [(''metadata'', JObj [(''deviceid'', JStr ''dev1''), (''tenant'', JStr ''tenantA''),
                                (''timestamp'', JInt 1500000000)]),
                         (''attrs'', JObj [(''temp'', JInt 10), (''hum'', JInt 50)])])"
    using loads_sample_telemetry by (simp add: telemetry_json_def)
  have 2: "loads sample_env telemetry_other_text =
             Some (JObj [(''metadata'', JObj [(''deviceid'', JStr ''dev1''), (''tenant'', JStr ''tenantB''),
                                (''timestamp'', JInt 1500000000)]),
                         (''attrs'', JObj [(''temp'', JInt 10), (''hum'', JInt 50)])])"
    using loads_sample_telemetry_other by (simp add: telemetry_other_json_def)
  have 3: "map_of [(''metadata'', JObj [(''deviceid'', JStr ''dev1''), (''tenant'', JStr ''tenantA''),
                                (''timestamp'', JInt 1500000000)]),
                   (''attrs'', JObj [(''temp'', JInt 10), (''hum'', JInt 50)])] ''metadata'' =
             Some (JObj [(''deviceid'', JStr ''dev1''), (''tenant'', JStr ''tenantA''),
                         (''timestamp'', JInt 1500000000)])"
    by simp
  have 4: "map_of [(''metadata'', JObj [(''deviceid'', JStr ''dev1''), (''tenant'', JStr ''tenantB''),
                                (''timestamp'', JInt 1500000000)]),
                   (''attrs'', JObj [(''temp'', JInt 10), (''hum'', JInt 50)])] ''metadata'' =
             Some (JObj [(''deviceid'', JStr ''dev1''), (''tenant'', JStr ''tenantB''),
                         (''timestamp'', JInt 1500000000)])"
    by simp
  have 5: "\<forall>k. k \<noteq> ''metadata'' \<longrightarrow>
             map_of [(''metadata'', JObj [(''deviceid'', JStr ''dev1''), (''tenant'', JStr ''tenantA''),
                                (''timestamp'', JInt 1500000000)]),
                     (''attrs'', JObj [(''temp'', JInt 10), (''hum'', JInt 50)])] k =
             map_of [(''metadata'', JObj [(''deviceid'', JStr ''dev1''), (''tenant'', JStr ''tenantB''),
                                (''timestamp'', JInt 1500000000)]),
                     (''attrs'', JObj [(''temp'', JInt 10), (''hum'', JInt 50)])] k"
    by simp
  have 6: "\<forall>k. k \<noteq> ''tenant'' \<longrightarrow>
             map_of [(''deviceid'', JStr ''dev1''), (''tenant'', JStr ''tenantA''),
                     (''timestamp'', JInt 1500000000)] k =
             map_of [(''deviceid'', JStr ''dev1''), (''tenant'', JStr ''tenantB''),
                     (''timestamp'', JInt 1500000000)] k"
    by simp
  note r = metadata_tenant_is_never_read [OF 1 2 3 4 5 6, of "''tenantA''" JNull "Datetime 0"]
  have a: "store_calls (fst (handle_event_data sample_env ''tenantA'' telemetry_text)) =
             store_calls (fst (handle_event_data sample_env ''tenantA'' telemetry_other_text))"
    by (rule r [THEN conjunct1])
  have b: "snd (handle_event_data sample_env ''tenantA'' telemetry_text) =
             snd (handle_event_data sample_env ''tenantA'' telemetry_other_text)"
    by (rule r [THEN conjunct2, THEN conjunct1])
  have c: "list_all (\<lambda>c. c = ''tenantA_dev1'')
             (map fst (inserts (fst (handle_event_data sample_env ''tenantA'' telemetry_text))))"
    using r [THEN conjunct2, THEN conjunct2, THEN conjunct2] by (simp add: dict_get_def)
  have d: "store_calls (fst (handle_event_data sample_env ''tenantA'' telemetry_other_text)) =
             [InsertMany ''tenantA_dev1''
                [AttrDoc ''temp'' (JInt 10) (JStr ''dev1'') (Datetime 1500000000000000),
                 AttrDoc ''hum'' (JInt 50) (JStr ''dev1'') (Datetime 1500000000000000)]]"
    by (simp add: handle_event_data_sample_other)
  from a b c d show ?thesis by (intro conjI)
qed

subsection \<open>Device-lifecycle events\<close>

lemma inserts_create_indexes: "inserts (fst (create_indexes E c)) = []"
  by (simp add: create_indexes_def split: option.splits)

lemma handle_event_devices_not_json:
  assumes "loads E message = None"
  shows "handle_event_devices E tenant message = ([], Some (Raised JSONDecodeError))"
  by (simp add: handle_event_devices_def assms)

lemma handle_event_devices_other:
  assumes "loads E message = Some data"
    and "py_getitem data ''event'' = Inr event"
    and "event \<noteq> JStr ''configure''"
    and "getitem2 data ''meta'' ''service'' = Inr service"
    and "getitem2 data ''data'' ''id'' = Inr did"
  shows "handle_event_devices E tenant message =
           prepend [Log Info (GotDeviceEvent data)]
             (create_indexes E (py_str E service @ ''_'' @ py_str E did))"
  by (simp add: handle_event_devices_def assms)

text \<open>
  Claim C6. A device-lifecycle envelope whose event is not \<^verbatim>\<open>configure\<close>, with the
  strings \<^verbatim>\<open>meta.service\<close> and \<^verbatim>\<open>data.id\<close>: the handler logs the event and calls
  \<^verbatim>\<open>create_indexes\<close> on the collection \<^verbatim>\<open>meta.service\<close>, \<^verbatim>\<open>_\<close>, \<^verbatim>\<open>data.id\<close>, and its
  trace has no \<^verbatim>\<open>insert_many\<close> call.
\<close>

theorem lifecycle_event_provisions_indexes:
  assumes "loads E message = Some data"
    and "py_getitem data ''event'' = Inr event"
    and "event \<noteq> JStr ''configure''"
    and "getitem2 data ''meta'' ''service'' = Inr (JStr service)"
    and "getitem2 data ''data'' ''id'' = Inr (JStr did)"
  shows "handle_event_devices E tenant message =
           prepend [Log Info (GotDeviceEvent data)] (create_indexes E (service @ ''_'' @ did))
         \<and> inserts (fst (handle_event_devices E tenant message)) = []"
proof -
  have h: "handle_event_devices E tenant message =
             prepend [Log Info (GotDeviceEvent data)] (create_indexes E (service @ ''_'' @ did))"
    using handle_event_devices_other [OF assms, of tenant] by simp
  have "inserts (fst (handle_event_devices E tenant message)) = []"
    by (simp add: h inserts_prepend inserts_create_indexes)
  with h show ?thesis by simp
qed

theorem lifecycle_event_provisions_indexes_witness:
  "handle_event_devices sample_env ''tenantB'' create_text =
     ([Log Info (GotDeviceEvent create_json),
       CreateIndex ''tenantA_dev1'' TsDescending,
       CreateIndex ''tenantA_dev1'' (TsExpireAfter 604800)], None)
   \<and> inserts (fst (handle_event_devices sample_env ''tenantB'' create_text)) = []"
proof -
  have 3: "JStr ''create'' \<noteq> JStr ''configure''" by simp
  note r = lifecycle_event_provisions_indexes
    [OF loads_sample_create create_json_fields(1) 3 create_json_fields(2,3), of "''tenantB''"]
  have "handle_event_devices sample_env ''tenantB'' create_text =
          ([Log Info (GotDeviceEvent create_json),
            CreateIndex ''tenantA_dev1'' TsDescending,
            CreateIndex ''tenantA_dev1'' (TsExpireAfter 604800)], None)"
    unfolding r [THEN conjunct1]
    by (simp add: create_indexes_def prepend_def sample_env_store)
  with r [THEN conjunct2] show ?thesis by (intro conjI)
qed

text \<open>
  Claim C2, evaluated where the store answers \<^verbatim>\<open>create_index\<close> with an error: the
  exception leaves \<^verbatim>\<open>handle_event_devices\<close>, and no warning is logged.
\<close>

theorem index_error_escapes_lifecycle_handler:
  "handle_event_devices failing_store_env ''tenantA'' create_text =
     ([Log Info (GotDeviceEvent create_json), CreateIndex ''tenantA_dev1'' TsDescending],
      Some (Raised PyMongoError))"
proof -
  have l: "loads failing_store_env create_text = Some create_json"
    by (simp add: loads_failing_store_env loads_sample_create)
  have 3: "JStr ''create'' \<noteq> JStr ''configure''" by simp
  show ?thesis
    unfolding handle_event_devices_other [OF l create_json_fields(1) 3 create_json_fields(2,3)]
    by (simp add: create_indexes_def prepend_def failing_store_env_def sample_env_def)
qed

text \<open>
  Claim C5, evaluated on the device-lifecycle subject with a payload that is not JSON:
  the \<^verbatim>\<open>JSONDecodeError\<close> leaves \<^verbatim>\<open>handle_event_devices\<close>, and nothing is logged.
\<close>

theorem malformed_payload_escapes_lifecycle_handler:
  "handle_event_devices sample_env ''tenantA'' ''not json'' = ([], Some (Raised JSONDecodeError))"
proof -
  have "loads sample_env ''not json'' = None"
    by (simp add: sample_env_def sample_table_def telemetry_text_def telemetry_other_text_def
        empty_text_def status_text_def create_text_def configure_text_def reshaped_text_def)
  then show ?thesis by (rule handle_event_devices_not_json)
qed

lemma parse_message_fields:
  assumes "getitem2 data ''data'' ''attrs'' = Inr attrs"
    and "getitem2 data ''data'' ''id'' = Inr did"
    and "getitem2 data ''meta'' ''service'' = Inr service"
  shows "parse_message E data =
           Inr ([Log Info (NewMessageIs (parsed_message attrs (now_millis E) did service))],
                dumps E (parsed_message attrs (now_millis E) did service))"
  by (simp add: parse_message_def assms Let_def)

lemma handle_event_data_reshaped:
  assumes "loads E text = Some (parsed_message (JObj a) ms (JStr did) service)"
    and "parse_datetime E (JInt ms) = (lg, Inr t)"
  shows "handle_event_data E tenant text =
           prepend ([Log Info (ThisIsTheData (parsed_message (JObj a) ms (JStr did) service)),
                     Log Debug (GotDataEvent text)] @ lg)
             (persist_docs E tenant (JStr did)
                (map (\<lambda>k. AttrDoc k (dict_get a k) (JStr did) t) (dict_keys a)))"
proof -
  let ?md = "[(''timestamp'', JInt ms), (''deviceid'', JStr did), (''tenant'', service)]"
  let ?d = "[(''attrs'', JObj a), (''metadata'', JObj ?md)]"
  have l: "loads E text = Some (JObj ?d)"
    using assms(1) by (simp add: parsed_message_def)
  have m: "dict_get ?d ''metadata'' = JObj ?md"
    by (simp add: dict_get_def)
  have i: "dict_get ?md ''deviceid'' = JStr did"
    by (simp add: dict_get_def)
  have n: "dict_get ?md ''deviceid'' \<noteq> JNull"
    by (simp add: dict_get_def)
  have s: "dict_get ?md ''status'' = JNull"
    by (simp add: dict_get_def)
  have p: "parse_datetime E (dict_get ?md ''timestamp'') = (lg, Inr t)"
    using assms(2) by (simp add: dict_get_def)
  have a: "map_of ?d ''attrs'' = Some (JObj a)"
    by simp
  have b: "build_docs (JObj ?d) (JObj ?md) (JStr did) t =
             Inr (map (\<lambda>k. AttrDoc k (dict_get a k) (JStr did) t) (dict_keys a))"
    using build_docs_attrs [OF a, of ?md "JStr did" t] by (simp add: s)
  show ?thesis
    using handle_event_data_envelope [OF l m n p, of tenant]
    by (simp only: i b sum.case parsed_message_def)
qed

lemma handle_event_devices_configure:
  assumes "loads E message = Some data"
    and "py_getitem data ''event'' = Inr (JStr ''configure'')"
    and "getitem2 data ''data'' ''attrs'' = Inr (JObj a)"
    and "getitem2 data ''data'' ''id'' = Inr (JStr did)"
    and "getitem2 data ''meta'' ''service'' = Inr service"
    and "m = parsed_message (JObj a) (now_millis E) (JStr did) service"
    and "loads E (dumps E m) = Some m"
    and "parse_datetime E (JInt (now_millis E)) = (lg, Inr t)"
  shows "handle_event_devices E tenant message =
           prepend ([Log Info (GotDeviceEvent data), Log Info (NewMessageIs m),
                     Log Info (ThisIsTheData m), Log Debug (GotDataEvent (dumps E m))] @ lg)
             (persist_docs E tenant (JStr did)
                (map (\<lambda>k. AttrDoc k (dict_get a k) (JStr did) t) (dict_keys a)))"
proof -
  have pm: "parse_message E data = Inr ([Log Info (NewMessageIs m)], dumps E m)"
    using parse_message_fields [OF assms(3,4,5), of E] by (simp only: assms(6))
  have l: "loads E (dumps E m) = Some (parsed_message (JObj a) (now_millis E) (JStr did) service)"
    using assms(7) by (simp only: assms(6))
  have h: "handle_event_data E tenant (dumps E m) =
             prepend ([Log Info (ThisIsTheData m), Log Debug (GotDataEvent (dumps E m))] @ lg)
               (persist_docs E tenant (JStr did)
                  (map (\<lambda>k. AttrDoc k (dict_get a k) (JStr did) t) (dict_keys a)))"
    using handle_event_data_reshaped [OF l assms(8), of tenant] by (simp only: assms(6))
  show ?thesis
    by (simp add: handle_event_devices_def assms(1,2) pm h prepend_prepend)
qed

text \<open>
  A \<^verbatim>\<open>configure\<close> event whose reshaped message the JSON codec reads back, at a time
  that \<^verbatim>\<open>parse_datetime\<close> accepts: the handler raises nothing, and with a database
  handle and a non-empty \<^verbatim>\<open>data.attrs\<close> it issues one \<^verbatim>\<open>insert_many\<close>, one attribute
  document for each key, into the collection named from the handler's tenant argument
  and \<^verbatim>\<open>data.id\<close>.
\<close>

lemma configure_event_inserts:
  assumes "loads E message = Some data"
    and "py_getitem data ''event'' = Inr (JStr ''configure'')"
    and "getitem2 data ''data'' ''attrs'' = Inr (JObj a)"
    and "getitem2 data ''data'' ''id'' = Inr (JStr did)"
    and "getitem2 data ''meta'' ''service'' = Inr service"
    and "m = parsed_message (JObj a) (now_millis E) (JStr did) service"
    and "loads E (dumps E m) = Some m"
    and "parse_datetime E (JInt (now_millis E)) = (lg, Inr t)"
  shows "snd (handle_event_devices E tenant message) = None"
    and "inserts (fst (handle_event_devices E tenant message)) =
           (if a \<noteq> [] \<and> db_present E
            then [(tenant @ ''_'' @ did,
                   map (\<lambda>k. AttrDoc k (dict_get a k) (JStr did) t) (dict_keys a))]
            else [])"
proof -
  note h = handle_event_devices_configure [OF assms, of tenant]
  show "snd (handle_event_devices E tenant message) = None"
    by (simp only: h snd_prepend snd_persist_docs)
  have "inserts lg = []"
    using parse_datetime_log_inserts [of E "JInt (now_millis E)"] by (simp add: assms(8))
  then show "inserts (fst (handle_event_devices E tenant message)) =
           (if a \<noteq> [] \<and> db_present E
            then [(tenant @ ''_'' @ did,
                   map (\<lambda>k. AttrDoc k (dict_get a k) (JStr did) t) (dict_keys a))]
            else [])"
    by (simp add: h inserts_prepend inserts_append inserts_persist_docs dict_keys_eq_Nil)
qed

lemma configure_event_sample_trace:
  "handle_event_devices sample_env tenant configure_text =
     ([Log Info (GotDeviceEvent configure_json), Log Info (NewMessageIs reshaped_json),
       Log Info (ThisIsTheData reshaped_json), Log Debug (GotDataEvent reshaped_text),
       InsertMany (tenant @ ''_dev1'')
         [AttrDoc ''fw'' (JStr ''1.2'') (JStr ''dev1'') (Datetime 1600000000000000)]], None)"
proof -
  have p: "parse_datetime sample_env (JInt (now_millis sample_env)) =
             ([], Inr (Datetime 1600000000000000))"
    by (simp only: now_millis_sample parse_datetime_sample_now)
  note h = handle_event_devices_configure
    [OF loads_sample_configure configure_json_fields reshaped_json_parsed sample_round_trip p,
      of tenant]
  show ?thesis
    unfolding h
    by (simp add: prepend_def persist_docs_def sample_env_store dict_keys_def dict_get_def
        dumps_sample_reshaped)
qed

text \<open>
  Handled for the tenant that \<^verbatim>\<open>meta.service\<close> names, the sample event goes to
  \<^verbatim>\<open>tenantA_dev1\<close>, the collection named from \<^verbatim>\<open>meta.service\<close> and \<^verbatim>\<open>data.id\<close>.
\<close>

lemma configure_event_same_tenant:
  "inserts (fst (handle_event_devices sample_env ''tenantA'' configure_text)) =
     [(''tenantA_dev1'',
       [AttrDoc ''fw'' (JStr ''1.2'') (JStr ''dev1'') (Datetime 1600000000000000)])]"
  by (simp add: configure_event_sample_trace)

text \<open>
  Claim C3, evaluated where the handler's tenant argument is not \<^verbatim>\<open>meta.service\<close>: the
  event of service \<^verbatim>\<open>tenantA\<close>, handled for \<^verbatim>\<open>tenantB\<close>, is written to
  \<^verbatim>\<open>tenantB_dev1\<close> and not to \<^verbatim>\<open>tenantA_dev1\<close>, the collection named from
  \<^verbatim>\<open>meta.service\<close> and \<^verbatim>\<open>data.id\<close> on which the other branch of the handler creates the
  indexes.
\<close>

theorem configure_event_written_under_tenant_argument:
  "inserts (fst (handle_event_devices sample_env ''tenantB'' configure_text)) =
     [(''tenantB_dev1'',
       [AttrDoc ''fw'' (JStr ''1.2'') (JStr ''dev1'') (Datetime 1600000000000000)])]
   \<and> inserts (fst (handle_event_devices sample_env ''tenantB'' configure_text)) \<noteq>
     [(''tenantA_dev1'',
       [AttrDoc ''fw'' (JStr ''1.2'') (JStr ''dev1'') (Datetime 1600000000000000)])]"
  by (simp add: configure_event_sample_trace)

end
